theory Spec2Isabelle
  imports Main
begin

section \<open>Package fetch: asynchronous HTTP requests with callbacks\<close>

text \<open>
  The package has one file, \<^verbatim>\<open>fetch/http.go\<close>, with a panic handler
  (\<^verbatim>\<open>GlobalPanicHandler\<close>), two entry points (\<^verbatim>\<open>Get\<close>, \<^verbatim>\<open>Request\<close>) and
  two callback adapters (\<^verbatim>\<open>AsText\<close>, \<^verbatim>\<open>AsJSON\<close>). The code is effectful throughout:
  it calls functions it is given, reads and closes body streams, writes to the log,
  panics and recovers. The embedding passes a state explicitly and returns, beside it,
  whether the Go function returned or panicked.
\<close>

subsection \<open>Values\<close>

text \<open>
  A Go \<^verbatim>\<open>error\<close> is an interface value; \<^verbatim>\<open>nil\<close> is \<open>None\<close> of \<open>err option\<close>.
  A \<^verbatim>\<open>[]byte\<close> and a \<^verbatim>\<open>string\<close> are both byte sequences, and \<^verbatim>\<open>string(buf)\<close>
  keeps the bytes, so both are \<open>string\<close> here.
\<close>

datatype err = Err string

text \<open>
  The value a panicking goroutine carries. The nil dereference is the one panic the
  package's own code can raise; every other panic comes from a function it calls.
  A panic value is never nil (the runtime turns \<^verbatim>\<open>panic(nil)\<close> into a
  \<^verbatim>\<open>*runtime.PanicNilError\<close>), so \<^verbatim>\<open>recover()\<close> returns nil exactly when the
  goroutine is not panicking.
\<close>

datatype pval = NilDereference | PanicValue string

datatype 'a outcome = Ret 'a | Panic pval

type_synonym addr = nat

datatype ctx = Background | Cancelable nat

text \<open>A \<^verbatim>\<open>*http.Request\<close> is a \<open>request option\<close>, a \<^verbatim>\<open>*http.Response\<close> a \<open>response option\<close>.\<close>

record request =
  Ctx :: ctx
  Method :: string
  URL :: string
  ReqBody :: "string option"

text \<open>
  \<^verbatim>\<open>Response.Body\<close> is the address of a stream in the store. (The http client
  documents that the body of a response it returns is never nil.)
\<close>

record response =
  StatusCode :: int
  Body :: addr

text \<open>
  A body stream: the bytes not yet read, the error the stream reports instead of the
  end of the input once those bytes are delivered (if any), and whether it was closed.
\<close>

record stream =
  unread :: string
  fault :: "err option"
  closed :: bool

subsection \<open>Events and the state\<close>

text \<open>
  What a run does is recorded as a list of events, in order. A call of a function value
  the package was given (the client's \<^verbatim>\<open>Do\<close>, a callback) is one event that holds,
  nested, the events of the callee: so the events of the package's own code are the
  top level of the list, whatever the callee does.
\<close>

datatype event =
    EvDo "request option" "event list"
  | EvCallback "response option" "err option" "event list"
  | EvText string "err option" "event list"
  | EvErr "err option" "event list"
  | EvReadAll addr
  | EvClose addr
  | EvUnmarshal string
  | EvLog pval string

text \<open>
  The state: the events so far, the store of body streams, the memory the decode target
  \<^verbatim>\<open>v\<close> of \<^verbatim>\<open>AsJSON\<close> points to, the panic the running goroutine carries while its
  deferred functions run, and what \<^verbatim>\<open>debug.Stack()\<close> would print.
\<close>

record 'v world =
  trace :: "event list"
  bodies :: "addr \<Rightarrow> stream"
  target :: 'v
  panicking :: "pval option"
  stack :: string

type_synonym ('a, 'v) comp = "'v world \<Rightarrow> 'a outcome \<times> 'v world"

type_synonym 'v callback = "response option \<Rightarrow> err option \<Rightarrow> (unit, 'v) comp"

type_synonym 'v client = "request option \<Rightarrow> (response option \<times> err option, 'v) comp"

definition emit :: "event \<Rightarrow> 'v world \<Rightarrow> 'v world" where
  "emit e w = w\<lparr>trace := trace w @ [e]\<rparr>"

text \<open>
  Calling a function value: the callee runs on the state with an empty event list, and
  the caller's list gets one event that holds what the callee recorded. The event is
  recorded whether the callee returns or panics.
\<close>

definition call :: "(event list \<Rightarrow> event) \<Rightarrow> ('a, 'v) comp \<Rightarrow> ('a, 'v) comp" where
  "call ev g w =
     (case g (w\<lparr>trace := []\<rparr>) of
        (out, w') \<Rightarrow> (out, w'\<lparr>trace := trace w @ [ev (trace w')]\<rparr>))"

subsection \<open>The library functions the package calls\<close>

text \<open>
  \<^verbatim>\<open>ioutil.ReadAll(res.Body)\<close>: reads until the end of the input or an error and
  returns the bytes read with the error (the end of the input is not an error).
  Reading a closed response body is an error.
\<close>

definition ErrBodyReadAfterClose :: err where
  "ErrBodyReadAfterClose = Err ''http: read on closed response body''"

definition ioutil_ReadAll :: "addr \<Rightarrow> 'v world \<Rightarrow> (string \<times> err option) \<times> 'v world" where
  "ioutil_ReadAll a w =
     (let s = bodies w a in
      if closed s then (([], Some ErrBodyReadAfterClose), emit (EvReadAll a) w)
      else ((unread s, fault s),
            emit (EvReadAll a) (w\<lparr>bodies := (bodies w)(a := s\<lparr>unread := []\<rparr>)\<rparr>)))"

text \<open>\<^verbatim>\<open>res.Body.Close()\<close>; the package drops the error it returns.\<close>

definition Body_Close :: "addr \<Rightarrow> 'v world \<Rightarrow> 'v world" where
  "Body_Close a w =
     emit (EvClose a) (w\<lparr>bodies := (bodies w)(a := (bodies w a)\<lparr>closed := True\<rparr>)\<rparr>)"

text \<open>\<^verbatim>\<open>recover()\<close>: returns the panic value, or nil, and stops the panic.\<close>

definition recover :: "'v world \<Rightarrow> pval option \<times> 'v world" where
  "recover w = (panicking w, w\<lparr>panicking := None\<rparr>)"

definition debug_Stack :: "'v world \<Rightarrow> string" where
  "debug_Stack w = stack w"

definition log_Println :: "pval \<Rightarrow> string \<Rightarrow> (unit, 'v) comp" where
  "log_Println r s w = (Ret (), emit (EvLog r s) w)"

subsection \<open>GlobalPanicHandler\<close>

text \<open>
  \<^verbatim>\<open>
  var GlobalPanicHandler = func() {
      r := recover()
      if r == nil {
          return
      }
      log.Println(r, string(debug.Stack()))
  }
  \<close>
\<close>

definition GlobalPanicHandler :: "(unit, 'v) comp" where
  "GlobalPanicHandler w =
     (case recover w of
        (None, w1) \<Rightarrow> (Ret (), w1)
      | (Some r, w1) \<Rightarrow> log_Println r (debug_Stack w1) w1)"

subsection \<open>Request\<close>

text \<open>
  \<^verbatim>\<open>
  func Request(client *http.Client, request *http.Request, f func(res *http.Response, err error)) {
      go func() {
          defer GlobalPanicHandler()
          res, err := client.Do(request)
          if err == nil {
              defer res.Body.Close()
          }
          f(res, err)
      }()
  }
  \<close>
  The function literal, without its first \<^verbatim>\<open>defer\<close>, is \<open>Request_body\<close>. The
  statement \<^verbatim>\<open>defer res.Body.Close()\<close> evaluates \<^verbatim>\<open>res.Body\<close> where it stands, so
  it panics there when \<^verbatim>\<open>res\<close> is nil; the deferred \<^verbatim>\<open>Close\<close> runs when the function
  returns and when it panics.
\<close>

definition Request_body :: "'v client \<Rightarrow> request option \<Rightarrow> 'v callback \<Rightarrow> (unit, 'v) comp" where
  "Request_body client request f w =
     (case call (EvDo request) (client request) w of
        (Panic p, w1) \<Rightarrow> (Panic p, w1)
      | (Ret (res, err), w1) \<Rightarrow>
          (case (if err = None
                 then (case res of None \<Rightarrow> Inl NilDereference | Some r \<Rightarrow> Inr [Body r])
                 else Inr [])
           of Inl p \<Rightarrow> (Panic p, w1)
            | Inr deferred \<Rightarrow>
                (case call (EvCallback res err) (f res err) w1 of
                   (out, w2) \<Rightarrow> (out, fold Body_Close deferred w2))))"

text \<open>
  A goroutine whose function starts with \<^verbatim>\<open>defer handler()\<close>: when the body has
  returned or panicked, the handler runs with the panic (if any) pending. The goroutine
  ends normally if no panic is pending afterwards; otherwise the process crashes with
  it (\<open>Panic\<close>).
\<close>

definition go_func :: "(unit, 'v) comp \<Rightarrow> (unit, 'v) comp \<Rightarrow> (unit, 'v) comp" where
  "go_func handler body w =
     (case body w of
        (out, w1) \<Rightarrow>
          (case handler (w1\<lparr>panicking := (case out of Ret _ \<Rightarrow> None | Panic p \<Rightarrow> Some p)\<rparr>) of
             (Panic p, w2) \<Rightarrow> (Panic p, w2\<lparr>panicking := None\<rparr>)
           | (Ret _, w2) \<Rightarrow>
               (case panicking w2 of
                  None \<Rightarrow> (Ret (), w2)
                | Some p \<Rightarrow> (Panic p, w2\<lparr>panicking := None\<rparr>))))"

text \<open>
  What a function that may start goroutines gives back: its own outcome and state, and
  the goroutines it started, which run after it (the Go wasm runtime has one thread).
  \<^verbatim>\<open>GlobalPanicHandler\<close> is a package variable that can be reassigned, so the handler
  is a parameter; its initial value is \<open>GlobalPanicHandler\<close> above.
\<close>

type_synonym 'v async = "'v world \<Rightarrow> (unit outcome \<times> 'v world) \<times> (unit, 'v) comp list"

definition Request :: "(unit, 'v) comp \<Rightarrow> 'v client \<Rightarrow> request option \<Rightarrow> 'v callback \<Rightarrow> 'v async" where
  "Request handler client request f w =
     ((Ret (), w), [go_func handler (Request_body client request f)])"

subsection \<open>Get\<close>

text \<open>
  \<^verbatim>\<open>
  func Get(url string, f func(res *http.Response, err error)) {
      req, err := http.NewRequestWithContext(context.Background(), "GET", url, nil)
      if err != nil {
          f(nil, err)
          return
      }
      Request(http.DefaultClient, req, f)
  }
  \<close>
  \<^verbatim>\<open>http.NewRequestWithContext\<close> and \<^verbatim>\<open>http.DefaultClient\<close> belong to the standard
  library: they are the parameters \<open>NewRequestWithContext\<close> and \<open>DefaultClient\<close>.
\<close>

type_synonym newreq = "ctx \<Rightarrow> string \<Rightarrow> string \<Rightarrow> string option \<Rightarrow> request option \<times> err option"

definition Get :: "(unit, 'v) comp \<Rightarrow> newreq \<Rightarrow> 'v client \<Rightarrow> string \<Rightarrow> 'v callback \<Rightarrow> 'v async" where
  "Get handler NewRequestWithContext DefaultClient url f w =
     (case NewRequestWithContext Background ''GET'' url None of
        (req, err) \<Rightarrow>
          if err \<noteq> None then (call (EvCallback None err) (f None err) w, [])
          else Request handler DefaultClient req f w)"

subsection \<open>AsText\<close>

text \<open>
  \<^verbatim>\<open>
  func AsText(f func(res string, err error)) func(res *http.Response, err error) {
      return func(res *http.Response, err error) {
          if err != nil {
              f("", err)
              return
          }
          buf, err := ioutil.ReadAll(res.Body)
          if err != nil {
              f("", err)
              return
          }
          f(string(buf), nil)
      }
  }
  \<close>
\<close>

definition AsText :: "(string \<Rightarrow> err option \<Rightarrow> (unit, 'v) comp) \<Rightarrow> 'v callback" where
  "AsText f res err w =
     (if err \<noteq> None then call (EvText [] err) (f [] err) w
      else
        (case res of
           None \<Rightarrow> (Panic NilDereference, w)
         | Some r \<Rightarrow>
             (case ioutil_ReadAll (Body r) w of
                ((buf, err'), w1) \<Rightarrow>
                  if err' \<noteq> None then call (EvText [] err') (f [] err') w1
                  else call (EvText buf None) (f buf None) w1)))"

subsection \<open>AsJSON\<close>

text \<open>
  \<^verbatim>\<open>
  func AsJSON(v interface{}, f func(err error)) func(res *http.Response, err error) {
      return func(res *http.Response, err error) {
          if err != nil {
              f(err)
              return
          }
          buf, err := ioutil.ReadAll(res.Body)
          if err != nil {
              f(err)
              return
          }
          if err := json.Unmarshal(buf, v); err != nil {
              f(err)
              return
          }
          f(nil) // success case
      }
  }
  \<close>
  \<^verbatim>\<open>json.Unmarshal\<close> belongs to the standard library: it is the parameter
  \<open>json_Unmarshal\<close>, a function of the bytes, the interface value \<open>v\<close> and the memory
  \<open>v\<close> points to, which returns the error and that memory after decoding.
\<close>

type_synonym ('p, 'v) unmarshal = "string \<Rightarrow> 'p \<Rightarrow> 'v \<Rightarrow> err option \<times> 'v"

definition AsJSON :: "('p, 'v) unmarshal \<Rightarrow> 'p \<Rightarrow> (err option \<Rightarrow> (unit, 'v) comp) \<Rightarrow> 'v callback" where
  "AsJSON json_Unmarshal v f res err w =
     (if err \<noteq> None then call (EvErr err) (f err) w
      else
        (case res of
           None \<Rightarrow> (Panic NilDereference, w)
         | Some r \<Rightarrow>
             (case ioutil_ReadAll (Body r) w of
                ((buf, err'), w1) \<Rightarrow>
                  if err' \<noteq> None then call (EvErr err') (f err') w1
                  else
                    (case json_Unmarshal buf v (target w1) of
                       (err'', t) \<Rightarrow>
                         let w2 = emit (EvUnmarshal buf) (w1\<lparr>target := t\<rparr>) in
                         if err'' \<noteq> None then call (EvErr err'') (f err'') w2
                         else call (EvErr None) (f None) w2))))"

subsection \<open>Reading the events\<close>

text \<open>The top-level events of one kind, in order, with their arguments.\<close>

definition callback_calls :: "event list \<Rightarrow> (response option \<times> err option) list" where
  "callback_calls tr = [(res, err). EvCallback res err sub \<leftarrow> tr]"

definition text_calls :: "event list \<Rightarrow> (string \<times> err option) list" where
  "text_calls tr = [(s, err). EvText s err sub \<leftarrow> tr]"

definition err_calls :: "event list \<Rightarrow> err option list" where
  "err_calls tr = [err. EvErr err sub \<leftarrow> tr]"

definition closes :: "event list \<Rightarrow> addr list" where
  "closes tr = [a. EvClose a \<leftarrow> tr]"

definition reads :: "event list \<Rightarrow> addr list" where
  "reads tr = [a. EvReadAll a \<leftarrow> tr]"

subsection \<open>A model of json.Unmarshal for the struct of the package's example\<close>

text \<open>
  The doc comment of \<^verbatim>\<open>AsJSON\<close> decodes into
  \<^verbatim>\<open>type MyType struct{ SomeField string }\<close>.
  \<^verbatim>\<open>encoding/json\<close> is not part of the package. The model below follows its
  documented behaviour: \<^verbatim>\<open>Unmarshal\<close> first checks that the whole input is one JSON
  value (RFC 8259) and returns a syntax error, before it writes anything, if it is not;
  then it refuses a \<open>v\<close> that is not a non-nil pointer; then it decodes. Decoding an
  object into a struct sets the fields whose names match a key (ignoring case), skips
  the other keys, leaves a field alone at \<^verbatim>\<open>null\<close>, and at a value of the wrong type
  goes on and returns the first such error at the end. Limits of the model: a byte above
  127 is copied as it is, and each half of a \<^verbatim>\<open>\u\<close> surrogate pair becomes U+FFFD.
\<close>

record MyType =
  SomeField :: string

datatype iface = NilInterface | NonPointer | PointerToTarget

datatype token =
    TLBrace | TRBrace | TLBrack | TRBrack | TColon | TComma
  | TStr string | TNum string | TTrue | TFalse | TNull

datatype json =
    JNull | JBool bool | JNumber string | JString string
  | JArray "json list" | JObject "(string \<times> json) list"

definition is_space :: "char \<Rightarrow> bool" where
  "is_space c = (c \<in> set [CHR '' '', CHR 0x09, CHR 0x0A, CHR 0x0D])"

definition is_digit :: "char \<Rightarrow> bool" where
  "is_digit c = (c \<in> set ''0123456789'')"

definition is_word_char :: "char \<Rightarrow> bool" where
  "is_word_char c = (c \<in> set ''0123456789+-.eEabcdfghijklmnopqrstuvwxyz'')"

definition hex_digit :: "char \<Rightarrow> nat option" where
  "hex_digit c = map_of (zip ''0123456789abcdefABCDEF'' ([0..<16] @ [10..<16])) c"

definition unescape :: "char \<Rightarrow> char option" where
  "unescape c =
     map_of [(CHR ''\"'', CHR ''\"''), (CHR 0x5C, CHR 0x5C), (CHR ''/'', CHR ''/''),
             (CHR ''b'', CHR 0x08), (CHR ''f'', CHR 0x0C), (CHR ''n'', CHR 0x0A),
             (CHR ''r'', CHR 0x0D), (CHR ''t'', CHR 0x09)] c"

definition utf8 :: "nat \<Rightarrow> string" where
  "utf8 n =
     (if n < 0x80 then [char_of n]
      else if n < 0x800 then [char_of (0xC0 + n div 64), char_of (0x80 + n mod 64)]
      else if 0xD800 \<le> n \<and> n < 0xE000 then [CHR 0xEF, CHR 0xBF, CHR 0xBD]
      else [char_of (0xE0 + n div 4096), char_of (0x80 + n div 64 mod 64),
            char_of (0x80 + n mod 64)])"

definition num_exp :: "string \<Rightarrow> bool" where
  "num_exp cs =
     (case cs of
        [] \<Rightarrow> True
      | e # r \<Rightarrow>
          (e = CHR ''e'' \<or> e = CHR ''E'') \<and>
          (case r of
             [] \<Rightarrow> False
           | s # ds \<Rightarrow>
               if s = CHR ''+'' \<or> s = CHR ''-'' then ds \<noteq> [] \<and> list_all is_digit ds
               else list_all is_digit r))"

definition num_frac :: "string \<Rightarrow> bool" where
  "num_frac cs =
     (case cs of
        [] \<Rightarrow> True
      | c # r \<Rightarrow>
          if c = CHR ''.'' then
            (case r of [] \<Rightarrow> False | d # ds \<Rightarrow> is_digit d \<and> num_exp (dropWhile is_digit ds))
          else num_exp cs)"

definition num_int :: "string \<Rightarrow> bool" where
  "num_int cs =
     (case cs of
        [] \<Rightarrow> False
      | c # r \<Rightarrow>
          if c = CHR ''0'' then num_frac r
          else is_digit c \<and> num_frac (dropWhile is_digit r))"

definition valid_number :: "string \<Rightarrow> bool" where
  "valid_number cs =
     (case cs of
        [] \<Rightarrow> False
      | c # r \<Rightarrow> if c = CHR ''-'' then num_int r else num_int cs)"

definition word_token :: "string \<Rightarrow> token option" where
  "word_token cs =
     (if cs = ''true'' then Some TTrue
      else if cs = ''false'' then Some TFalse
      else if cs = ''null'' then Some TNull
      else if valid_number cs then Some (TNum cs)
      else None)"

definition punct :: "char \<Rightarrow> token option" where
  "punct c =
     map_of [(CHR ''{'', TLBrace), (CHR ''}'', TRBrace), (CHR ''['', TLBrack),
             (CHR '']'', TRBrack), (CHR '':'', TColon), (CHR '','', TComma)] c"

text \<open>
  The lexer, one byte at a time: between tokens, inside a string, after a backslash,
  inside the four hexadecimal digits of \<^verbatim>\<open>\u\<close>, inside a number or a literal name.
\<close>

datatype lex_mode =
    Between
  | InString string
  | InEscape string
  | InUnicode string "nat list"
  | InWord string

definition emit_token :: "token \<Rightarrow> token list option \<Rightarrow> token list option" where
  "emit_token t r = map_option (\<lambda>ts. t # ts) r"

fun lex :: "lex_mode \<Rightarrow> string \<Rightarrow> token list option" where
  "lex Between [] = Some []"
| "lex Between (c # cs) =
     (if is_space c then lex Between cs
      else if c = CHR ''\"'' then lex (InString []) cs
      else if is_word_char c then lex (InWord [c]) cs
      else (case punct c of Some t \<Rightarrow> emit_token t (lex Between cs) | None \<Rightarrow> None))"
| "lex (InString acc) [] = None"
| "lex (InString acc) (c # cs) =
     (if c = CHR ''\"'' then emit_token (TStr acc) (lex Between cs)
      else if c = CHR 0x5C then lex (InEscape acc) cs
      else if (of_char c :: nat) < 0x20 then None
      else lex (InString (acc @ [c])) cs)"
| "lex (InEscape acc) [] = None"
| "lex (InEscape acc) (c # cs) =
     (case unescape c of
        Some d \<Rightarrow> lex (InString (acc @ [d])) cs
      | None \<Rightarrow> if c = CHR ''u'' then lex (InUnicode acc []) cs else None)"
| "lex (InUnicode acc hs) [] = None"
| "lex (InUnicode acc hs) (c # cs) =
     (case hex_digit c of
        None \<Rightarrow> None
      | Some h \<Rightarrow>
          if length hs = 3
          then lex (InString (acc @ utf8 (foldl (\<lambda>n d. 16 * n + d) 0 (hs @ [h])))) cs
          else lex (InUnicode acc (hs @ [h])) cs)"
| "lex (InWord acc) [] = map_option (\<lambda>t. [t]) (word_token acc)"
| "lex (InWord acc) (c # cs) =
     (if is_word_char c then lex (InWord (acc @ [c])) cs
      else
        (case word_token acc of
           None \<Rightarrow> None
         | Some t \<Rightarrow>
             if is_space c then emit_token t (lex Between cs)
             else if c = CHR ''\"'' then emit_token t (lex (InString []) cs)
             else (case punct c of
                     Some p \<Rightarrow> emit_token t (emit_token p (lex Between cs))
                   | None \<Rightarrow> None)))"

text \<open>
  The grammar, one token at a time, with the stack of the arrays and objects that are
  open and what may come next.
\<close>

datatype frame = FArr "json list" | FObj "(string \<times> json) list" "string option"

datatype expect =
    ExpValue | ExpValueOrClose | ExpKeyOrClose | ExpKey | ExpColon | ExpCommaOrClose | ExpEnd

type_synonym pstate = "frame list \<times> expect \<times> json option"

fun complete :: "json \<Rightarrow> frame list \<Rightarrow> pstate option" where
  "complete v [] = Some ([], ExpEnd, Some v)"
| "complete v (FArr xs # st) = Some (FArr (xs @ [v]) # st, ExpCommaOrClose, None)"
| "complete v (FObj kvs (Some k) # st) = Some (FObj (kvs @ [(k, v)]) None # st, ExpCommaOrClose, None)"
| "complete v (FObj kvs None # st) = None"

fun scalar :: "token \<Rightarrow> json option" where
  "scalar (TStr s) = Some (JString s)"
| "scalar (TNum n) = Some (JNumber n)"
| "scalar TTrue = Some (JBool True)"
| "scalar TFalse = Some (JBool False)"
| "scalar TNull = Some JNull"
| "scalar _ = None"

definition begin_value :: "token \<Rightarrow> frame list \<Rightarrow> pstate option" where
  "begin_value t st =
     (if t = TLBrack then Some (FArr [] # st, ExpValueOrClose, None)
      else if t = TLBrace then Some (FObj [] None # st, ExpKeyOrClose, None)
      else (case scalar t of Some v \<Rightarrow> complete v st | None \<Rightarrow> None))"

definition close_frame :: "token \<Rightarrow> frame list \<Rightarrow> pstate option" where
  "close_frame t st =
     (case st of
        FArr xs # st' \<Rightarrow> if t = TRBrack then complete (JArray xs) st' else None
      | FObj kvs None # st' \<Rightarrow> if t = TRBrace then complete (JObject kvs) st' else None
      | _ \<Rightarrow> None)"

definition begin_key :: "token \<Rightarrow> frame list \<Rightarrow> pstate option" where
  "begin_key t st =
     (case (t, st) of
        (TStr k, FObj kvs None # st') \<Rightarrow> Some (FObj kvs (Some k) # st', ExpColon, None)
      | _ \<Rightarrow> None)"

fun pstep :: "token \<Rightarrow> pstate \<Rightarrow> pstate option" where
  "pstep t (st, ExpValue, r) = begin_value t st"
| "pstep t (st, ExpValueOrClose, r) =
     (if t = TRBrack then close_frame t st else begin_value t st)"
| "pstep t (st, ExpKeyOrClose, r) =
     (if t = TRBrace then close_frame t st else begin_key t st)"
| "pstep t (st, ExpKey, r) = begin_key t st"
| "pstep t (st, ExpColon, r) = (if t = TColon then Some (st, ExpValue, None) else None)"
| "pstep t (st, ExpCommaOrClose, r) =
     (if t = TComma then
        (case st of
           FArr xs # st' \<Rightarrow> Some (st, ExpValue, None)
         | FObj kvs k # st' \<Rightarrow> Some (st, ExpKey, None)
         | [] \<Rightarrow> None)
      else close_frame t st)"
| "pstep t (st, ExpEnd, r) = None"

fun psteps :: "token list \<Rightarrow> pstate \<Rightarrow> json option" where
  "psteps [] (st, e, r) = (if e = ExpEnd then r else None)"
| "psteps (t # ts) s = (case pstep t s of None \<Rightarrow> None | Some s' \<Rightarrow> psteps ts s')"

definition parse_json :: "string \<Rightarrow> json option" where
  "parse_json data =
     (case lex Between data of None \<Rightarrow> None | Some ts \<Rightarrow> psteps ts ([], ExpValue, None))"

definition SyntaxError :: err where
  "SyntaxError = Err ''json: invalid character in the input''"

definition InvalidUnmarshalError :: err where
  "InvalidUnmarshalError = Err ''json: Unmarshal(nil or non-pointer)''"

definition UnmarshalTypeError :: err where
  "UnmarshalTypeError = Err ''json: cannot unmarshal the value into the Go type''"

definition checkValid :: "string \<Rightarrow> err option" where
  "checkValid data = (case parse_json data of None \<Rightarrow> Some SyntaxError | Some _ \<Rightarrow> None)"

definition ascii_lower :: "char \<Rightarrow> char" where
  "ascii_lower c =
     (case map_of (zip ''ABCDEFGHIJKLMNOPQRSTUVWXYZ'' ''abcdefghijklmnopqrstuvwxyz'') c of
        Some d \<Rightarrow> d
      | None \<Rightarrow> c)"

definition decode_member :: "err option \<times> MyType \<Rightarrow> string \<times> json \<Rightarrow> err option \<times> MyType" where
  "decode_member s kv =
     (case (s, kv) of
        ((saved, t), (k, j)) \<Rightarrow>
          if map ascii_lower k = map ascii_lower ''SomeField'' then
            (case j of
               JString x \<Rightarrow> (saved, t\<lparr>SomeField := x\<rparr>)
             | JNull \<Rightarrow> (saved, t)
             | _ \<Rightarrow> (if saved = None then Some UnmarshalTypeError else saved, t))
          else (saved, t))"

definition decode_MyType :: "json \<Rightarrow> MyType \<Rightarrow> err option \<times> MyType" where
  "decode_MyType j t =
     (case j of
        JObject kvs \<Rightarrow> foldl decode_member (None, t) kvs
      | JNull \<Rightarrow> (None, t)
      | _ \<Rightarrow> (Some UnmarshalTypeError, t))"

definition json_Unmarshal_MyType :: "(iface, MyType) unmarshal" where
  "json_Unmarshal_MyType data v t =
     (case checkValid data of
        Some e \<Rightarrow> (Some e, t)
      | None \<Rightarrow>
          if v \<noteq> PointerToTarget then (Some InvalidUnmarshalError, t)
          else (case parse_json data of
                  None \<Rightarrow> (Some SyntaxError, t)
                | Some j \<Rightarrow> decode_MyType j t))"

subsection \<open>Concrete inputs\<close>

text \<open>
  Callbacks, clients and states on which the theorems below are evaluated. The store
  of \<open>world_with_body data\<close> holds an open stream with the unread bytes \<open>data\<close> at
  every address.
\<close>

definition world_with_body :: "string \<Rightarrow> MyType world" where
  "world_with_body data =
     \<lparr>trace = [],
      bodies = (\<lambda>a. \<lparr>unread = data, fault = None, closed = False\<rparr>),
      target = \<lparr>SomeField = ''before''\<rparr>,
      panicking = None,
      stack = ''goroutine 7 [running]''\<rparr>"

definition world_with_broken_body :: "MyType world" where
  "world_with_broken_body =
     \<lparr>trace = [],
      bodies = (\<lambda>a. \<lparr>unread = ''{\"Some'', fault = Some (Err ''unexpected EOF''), closed = False\<rparr>),
      target = \<lparr>SomeField = ''before''\<rparr>,
      panicking = None,
      stack = ''goroutine 7 [running]''\<rparr>"

definition req0 :: request where
  "req0 = \<lparr>Ctx = Background, Method = ''GET'', URL = ''http://localhost/x'', ReqBody = None\<rparr>"

definition res0 :: response where
  "res0 = \<lparr>StatusCode = 200, Body = 0\<rparr>"

definition f_returns :: "'v callback" where
  "f_returns res err w = (Ret (), w)"

definition f_panics :: "'v callback" where
  "f_panics res err w = (Panic (PanicValue ''boom''), w)"

definition text_returns :: "string \<Rightarrow> err option \<Rightarrow> (unit, 'v) comp" where
  "text_returns s err w = (Ret (), w)"

definition err_returns :: "err option \<Rightarrow> (unit, 'v) comp" where
  "err_returns err w = (Ret (), w)"

text \<open>A client whose \<^verbatim>\<open>Do\<close> gets a response.\<close>

definition client_ok :: "'v client" where
  "client_ok request w = (Ret (Some res0, None), w)"

text \<open>A client whose \<^verbatim>\<open>Do\<close> fails to connect.\<close>

definition client_refused :: "'v client" where
  "client_refused request w = (Ret (None, Some (Err ''dial tcp: connection refused'')), w)"

text \<open>
  A client whose \<^verbatim>\<open>CheckRedirect\<close> fails: \<^verbatim>\<open>Do\<close> then returns the last response,
  its body closed, together with the error (documented at \<^verbatim>\<open>http.Client.Do\<close>).
\<close>

definition client_redirect_refused :: "'v client" where
  "client_redirect_refused request w =
     (Ret (Some res0, Some (Err ''Get: stopped after 10 redirects'')),
      w\<lparr>bodies := (bodies w)(Body res0 := (bodies w (Body res0))\<lparr>closed := True\<rparr>)\<rparr>)"

text \<open>
  A request constructor that, as \<^verbatim>\<open>url.Parse\<close> does, refuses a URL with an ASCII
  control character.
\<close>

definition newreq_no_ctl :: newreq where
  "newreq_no_ctl c m u b =
     (if \<exists>x \<in> set u. (of_char x :: nat) < 0x20 \<or> x = CHR 0x7F
      then (None, Some (Err ''net/url: invalid control character in URL''))
      else (Some \<lparr>Ctx = c, Method = m, URL = u, ReqBody = b\<rparr>, None))"

section \<open>Properties\<close>

subsection \<open>Calls and events\<close>

lemma trace_call: "trace (snd (call ev g w)) = trace w @ [ev (trace (snd (g (w\<lparr>trace := []\<rparr>))))]"
  by (simp add: call_def split: prod.splits)

lemma fst_call: "fst (call ev g w) = fst (g (w\<lparr>trace := []\<rparr>))"
  by (simp add: call_def split: prod.splits)

lemma callback_calls_simps:
  "callback_calls [] = []"
  "callback_calls (xs @ ys) = callback_calls xs @ callback_calls ys"
  "callback_calls (EvCallback res err sub # xs) = (res, err) # callback_calls xs"
  "callback_calls (EvDo q sub # xs) = callback_calls xs"
  "callback_calls (EvClose a # xs) = callback_calls xs"
  "callback_calls (EvLog p s # xs) = callback_calls xs"
  by (simp_all add: callback_calls_def)

lemma text_calls_simps:
  "text_calls [] = []"
  "text_calls (xs @ ys) = text_calls xs @ text_calls ys"
  "text_calls (EvText s err sub # xs) = (s, err) # text_calls xs"
  "text_calls (EvReadAll a # xs) = text_calls xs"
  by (simp_all add: text_calls_def)

lemma err_calls_simps:
  "err_calls [] = []"
  "err_calls (xs @ ys) = err_calls xs @ err_calls ys"
  "err_calls (EvErr err sub # xs) = err # err_calls xs"
  "err_calls (EvReadAll a # xs) = err_calls xs"
  "err_calls (EvUnmarshal b # xs) = err_calls xs"
  by (simp_all add: err_calls_def)

lemma closes_simps:
  "closes [] = []"
  "closes (xs @ ys) = closes xs @ closes ys"
  "closes (EvClose a # xs) = a # closes xs"
  "closes (EvDo q sub # xs) = closes xs"
  "closes (EvCallback res err sub # xs) = closes xs"
  "closes (EvText s err sub # xs) = closes xs"
  "closes (EvErr err sub # xs) = closes xs"
  "closes (EvReadAll a # xs) = closes xs"
  "closes (EvUnmarshal b # xs) = closes xs"
  "closes (EvLog p s # xs) = closes xs"
  by (simp_all add: closes_def)

lemma reads_simps:
  "reads [] = []"
  "reads (xs @ ys) = reads xs @ reads ys"
  "reads (EvReadAll a # xs) = a # reads xs"
  "reads (EvText s err sub # xs) = reads xs"
  "reads (EvErr err sub # xs) = reads xs"
  "reads (EvUnmarshal b # xs) = reads xs"
  by (simp_all add: reads_def)

lemma ReadAll_frame:
  "trace (snd (ioutil_ReadAll a w)) = trace w @ [EvReadAll a]"
  "target (snd (ioutil_ReadAll a w)) = target w"
  "stack (snd (ioutil_ReadAll a w)) = stack w"
  by (simp_all add: ioutil_ReadAll_def emit_def Let_def)

lemma ReadAll_open:
  "\<not> closed (bodies w a) \<Longrightarrow> fst (ioutil_ReadAll a w) = (unread (bodies w a), fault (bodies w a))"
  by (simp add: ioutil_ReadAll_def Let_def)

lemma go_func_GlobalPanicHandler:
  "go_func GlobalPanicHandler body w =
     (case body w of
        (Ret u, w1) \<Rightarrow> (Ret (), w1\<lparr>panicking := None\<rparr>)
      | (Panic p, w1) \<Rightarrow> (Ret (), w1\<lparr>trace := trace w1 @ [EvLog p (stack w1)], panicking := None\<rparr>))"
  by (simp add: GlobalPanicHandler_def recover_def log_Println_def debug_Stack_def emit_def go_func_def
      split: prod.splits option.splits outcome.splits)

subsection \<open>The panic handler\<close>




subsection \<open>Request\<close>

lemma Request_body_returned:
  assumes "client request (w\<lparr>trace := []\<rparr>) = (Ret (res, err), w1)"
    and "err \<noteq> None \<or> res \<noteq> None"
  shows "Request_body client request f w =
     (case f res err (w1\<lparr>trace := []\<rparr>) of
        (out, w2) \<Rightarrow>
          (out, fold Body_Close (if err = None then [Body (the res)] else [])
                  (w2\<lparr>trace := trace w @ [EvDo request (trace w1), EvCallback res err (trace w2)]\<rparr>)))"
  using assms
  by (auto simp: Request_body_def call_def split: prod.splits option.splits)

text \<open>
  Claim C1, as amended. \<open>Request\<close> starts exactly one goroutine. Whenever the client's
  \<^verbatim>\<open>Do\<close> returns a non-nil error \<open>e\<close> in it, the goroutine calls the callback exactly
  once, with exactly that error and with the response \<^verbatim>\<open>Do\<close> returned beside it,
  whatever it is: nil when \<^verbatim>\<open>Do\<close> returned nil.
\<close>

theorem Request_transport_error:
  assumes "client request (w\<lparr>trace := []\<rparr>) = (Ret (res, Some e), w1)"
  shows "map (\<lambda>g. callback_calls (trace (snd (g w))))
           (snd (Request GlobalPanicHandler client request f w0)) =
         [callback_calls (trace w) @ [(res, Some e)]]"
  using Request_body_returned [of client request w res "Some e" w1 f] assms
  by (simp add: Request_def go_func_GlobalPanicHandler callback_calls_simps
      split: prod.splits outcome.splits)

text \<open>A client that cannot connect: the callback gets nil and the error.\<close>

theorem Request_transport_error_witness:
  "map (\<lambda>g. callback_calls (trace (snd (g (world_with_body [])))))
     (snd (Request GlobalPanicHandler client_refused (Some req0) f_returns (world_with_body []))) =
   [[(None, Some (Err ''dial tcp: connection refused''))]]"
  using Request_transport_error [of client_refused "Some req0" "world_with_body []" None
      "Err ''dial tcp: connection refused''" "world_with_body []" f_returns "world_with_body []"]
  by (simp add: client_refused_def world_with_body_def callback_calls_simps)

text \<open>
  Claim C1 as stated fails for a client that returns a response beside the error, as
  \<^verbatim>\<open>http.Client.Do\<close> does when \<^verbatim>\<open>CheckRedirect\<close> fails: the callback gets that
  response, not nil.
\<close>

theorem Request_transport_error_counterexample:
  "fst (client_redirect_refused (Some req0) (world_with_body [])) =
     Ret (Some res0, Some (Err ''Get: stopped after 10 redirects'')) \<and>
   map (\<lambda>g. callback_calls (trace (snd (g (world_with_body [])))))
     (snd (Request GlobalPanicHandler client_redirect_refused (Some req0) f_returns (world_with_body []))) =
   [[(Some res0, Some (Err ''Get: stopped after 10 redirects''))]] \<and>
   Some res0 \<noteq> None"
  by (simp add: Request_def go_func_GlobalPanicHandler Request_body_def call_def
      client_redirect_refused_def world_with_body_def f_returns_def callback_calls_simps)

subsection \<open>Get\<close>

text \<open>
  Claim C2. \<open>Get\<close> asks for a request with the background context, the method GET,
  the URL and no body. If the construction returns an error, \<open>Get\<close> calls the callback
  itself, once, with nil and that (non-nil) error, and starts no goroutine. Otherwise
  it is \<open>Request\<close> with the default client and the request constructed.
\<close>

theorem Get_construction:
  assumes "NewRequestWithContext Background ''GET'' url None = (req, err)"
  shows "(err \<noteq> None \<longrightarrow>
            Get handler NewRequestWithContext DefaultClient url f w =
              (call (EvCallback None err) (f None err) w, []) \<and>
            callback_calls (trace (snd (fst (Get handler NewRequestWithContext DefaultClient url f w)))) =
              callback_calls (trace w) @ [(None, err)]) \<and>
         (err = None \<longrightarrow>
            Get handler NewRequestWithContext DefaultClient url f w =
              Request handler DefaultClient req f w)"
  using assms by (simp add: Get_def trace_call callback_calls_simps)

theorem Get_construction_witness:
  "Get GlobalPanicHandler newreq_no_ctl client_ok (''http://a'' @ [CHR 0x0A]) f_returns (world_with_body []) =
     ((Ret (), (world_with_body [])
         \<lparr>trace := [EvCallback None (Some (Err ''net/url: invalid control character in URL'')) []]\<rparr>), []) \<and>
   Get GlobalPanicHandler newreq_no_ctl client_ok ''http://a'' f_returns (world_with_body []) =
     Request GlobalPanicHandler client_ok
       (Some \<lparr>Ctx = Background, Method = ''GET'', URL = ''http://a'', ReqBody = None\<rparr>)
       f_returns (world_with_body [])"
  using Get_construction [of newreq_no_ctl "''http://a'' @ [CHR 0x0A]" None
        "Some (Err ''net/url: invalid control character in URL'')" GlobalPanicHandler client_ok
        f_returns "world_with_body []"]
    Get_construction [of newreq_no_ctl "''http://a''"
        "Some \<lparr>Ctx = Background, Method = ''GET'', URL = ''http://a'', ReqBody = None\<rparr>" None
        GlobalPanicHandler client_ok f_returns "world_with_body []"]
  by (simp add: newreq_no_ctl_def call_def f_returns_def world_with_body_def)

subsection \<open>AsText\<close>

lemma AsText_unfold:
  "AsText f res err w =
     (if err \<noteq> None then call (EvText [] err) (f [] err) w
      else
        (case res of
           None \<Rightarrow> (Panic NilDereference, w)
         | Some r \<Rightarrow>
             (let rd = ioutil_ReadAll (Body r) w in
              if snd (fst rd) \<noteq> None
              then call (EvText [] (snd (fst rd))) (f [] (snd (fst rd))) (snd rd)
              else call (EvText (fst (fst rd)) None) (f (fst (fst rd)) None) (snd rd))))"
  by (simp add: AsText_def split: prod.splits option.splits)




text \<open>
  Claim C4. With a non-nil error \<open>e\<close>, \<open>AsText f\<close> is the call \<open>f "" e\<close> on the state as
  it is: its only event is that call, so it neither reads nor closes the body and does
  not look at the response. With a nil error and a body whose reading fails with \<open>e\<close>,
  \<open>f\<close> is called once with the empty string and \<open>e\<close>.
\<close>

theorem AsText_error_paths:
  "(err = Some e \<longrightarrow>
      AsText f res err w = call (EvText [] (Some e)) (f [] (Some e)) w \<and>
      trace (snd (AsText f res err w)) =
        trace w @ [EvText [] (Some e) (trace (snd (f [] (Some e) (w\<lparr>trace := []\<rparr>))))]) \<and>
   (err = None \<and> res = Some r \<and> snd (fst (ioutil_ReadAll (Body r) w)) = Some e \<longrightarrow>
      AsText f res err w =
        call (EvText [] (Some e)) (f [] (Some e)) (snd (ioutil_ReadAll (Body r) w)) \<and>
      text_calls (trace (snd (AsText f res err w))) = text_calls (trace w) @ [([], Some e)])"
  by (auto simp: AsText_unfold trace_call text_calls_simps ReadAll_frame Let_def)

theorem AsText_error_paths_witness:
  "AsText text_returns (Some res0) (Some (Err ''timeout'')) (world_with_body ''hello'') =
     (Ret (), (world_with_body ''hello'')\<lparr>trace := [EvText [] (Some (Err ''timeout'')) []]\<rparr>) \<and>
   text_calls (trace (snd (AsText text_returns (Some res0) None world_with_broken_body))) =
     [([], Some (Err ''unexpected EOF''))]"
  using AsText_error_paths [of "Some (Err ''timeout'')" "Err ''timeout''" text_returns "Some res0"
      "world_with_body ''hello''" res0]
    AsText_error_paths [of None "Err ''unexpected EOF''" text_returns "Some res0"
      world_with_broken_body res0]
  by (simp add: call_def text_returns_def world_with_body_def world_with_broken_body_def
      ioutil_ReadAll_def emit_def text_calls_simps)

subsection \<open>AsJSON\<close>

lemma AsJSON_unfold:
  "AsJSON um v f res err w =
     (if err \<noteq> None then call (EvErr err) (f err) w
      else
        (case res of
           None \<Rightarrow> (Panic NilDereference, w)
         | Some r \<Rightarrow>
             (let rd = ioutil_ReadAll (Body r) w in
              if snd (fst rd) \<noteq> None then call (EvErr (snd (fst rd))) (f (snd (fst rd))) (snd rd)
              else
                (let dec = um (fst (fst rd)) v (target (snd rd));
                     w2 = emit (EvUnmarshal (fst (fst rd))) ((snd rd)\<lparr>target := snd dec\<rparr>)
                 in call (EvErr (fst dec)) (f (fst dec)) w2))))"
  by (simp add: AsJSON_def Let_def split: prod.splits option.splits)






lemma Unmarshal_not_json:
  "json_Unmarshal_MyType ''not-json'' v t = (Some SyntaxError, t)"
  by (simp add: json_Unmarshal_MyType_def checkValid_def parse_json_def is_space_def
      is_word_char_def word_token_def valid_number_def num_int_def is_digit_def)

text \<open>
  Claim C8. For a response whose body is \<^verbatim>\<open>not-json\<close>, open and read without error,
  \<open>AsJSON v f\<close> calls \<open>f\<close> once with a non-nil error, the syntax error, on a state in
  which the target is what it was: no field of it was written. This holds for every
  target, every \<open>v\<close> and every \<open>f\<close>, with \<^verbatim>\<open>json.Unmarshal\<close> as modelled above.
\<close>

theorem AsJSON_not_json:
  assumes "\<not> closed (bodies w (Body r))"
    and "fault (bodies w (Body r)) = None"
    and "unread (bodies w (Body r)) = ''not-json''"
  shows "err_calls (trace (snd (AsJSON json_Unmarshal_MyType v f (Some r) None w))) =
           err_calls (trace w) @ [Some SyntaxError] \<and>
         AsJSON json_Unmarshal_MyType v f (Some r) None w =
           call (EvErr (Some SyntaxError)) (f (Some SyntaxError))
             (emit (EvUnmarshal ''not-json'') (snd (ioutil_ReadAll (Body r) w))) \<and>
         target (emit (EvUnmarshal ''not-json'') (snd (ioutil_ReadAll (Body r) w))) = target w"
proof -
  have rd: "fst (ioutil_ReadAll (Body r) w) = (''not-json'', None)"
    using assms by (simp add: ReadAll_open)
  have run: "AsJSON json_Unmarshal_MyType v f (Some r) None w =
      call (EvErr (Some SyntaxError)) (f (Some SyntaxError))
        (emit (EvUnmarshal ''not-json'') (snd (ioutil_ReadAll (Body r) w)))"
    by (simp add: AsJSON_unfold Let_def rd Unmarshal_not_json)
  have tr: "err_calls (trace (snd (AsJSON json_Unmarshal_MyType v f (Some r) None w))) =
      err_calls (trace w) @ [Some SyntaxError]"
    by (simp add: run trace_call emit_def ReadAll_frame err_calls_simps)
  have tg: "target (emit (EvUnmarshal ''not-json'') (snd (ioutil_ReadAll (Body r) w))) = target w"
    by (simp add: emit_def ReadAll_frame)
  from tr run tg show ?thesis by blast
qed

theorem AsJSON_not_json_witness:
  "err_calls (trace (snd (AsJSON json_Unmarshal_MyType PointerToTarget err_returns (Some res0) None
      (world_with_body ''not-json'')))) = [Some SyntaxError] \<and>
   target (snd (AsJSON json_Unmarshal_MyType PointerToTarget err_returns (Some res0) None
      (world_with_body ''not-json''))) = \<lparr>SomeField = ''before''\<rparr>"
  using AsJSON_not_json [of "world_with_body ''not-json''" res0 PointerToTarget err_returns]
  by (auto simp: world_with_body_def call_def err_returns_def err_calls_simps)

text \<open>
  Claim C9. With a non-nil upstream error, \<open>AsJSON v f\<close> is the call of \<open>f\<close> with that
  error on the state as it is. With a nil error and a body whose reading fails, it is
  the call of \<open>f\<close> with the read error on the state after the read, in which the target
  is what it was. Neither right-hand side mentions \<^verbatim>\<open>json.Unmarshal\<close>: decoding is not
  attempted.
\<close>

theorem AsJSON_early_errors_keep_target:
  "(err = Some e \<longrightarrow>
      AsJSON um v f res err w = call (EvErr (Some e)) (f (Some e)) w) \<and>
   (err = None \<and> res = Some r \<and> snd (fst (ioutil_ReadAll (Body r) w)) = Some e \<longrightarrow>
      AsJSON um v f res err w =
        call (EvErr (Some e)) (f (Some e)) (snd (ioutil_ReadAll (Body r) w)) \<and>
      target (snd (ioutil_ReadAll (Body r) w)) = target w \<and>
      trace (snd (ioutil_ReadAll (Body r) w)) = trace w @ [EvReadAll (Body r)])"
  by (simp add: AsJSON_unfold Let_def ReadAll_frame)

theorem AsJSON_early_errors_keep_target_witness:
  "target (snd (AsJSON json_Unmarshal_MyType PointerToTarget err_returns (Some res0)
      (Some (Err ''timeout'')) (world_with_body ''{\"SomeField\":\"x\"}''))) =
     \<lparr>SomeField = ''before''\<rparr> \<and>
   target (snd (AsJSON json_Unmarshal_MyType PointerToTarget err_returns (Some res0) None
      world_with_broken_body)) = \<lparr>SomeField = ''before''\<rparr> \<and>
   trace (snd (AsJSON json_Unmarshal_MyType PointerToTarget err_returns (Some res0) None
      world_with_broken_body)) = [EvReadAll 0, EvErr (Some (Err ''unexpected EOF'')) []]"
  using AsJSON_early_errors_keep_target [of "Some (Err ''timeout'')" "Err ''timeout''"
      json_Unmarshal_MyType PointerToTarget err_returns "Some res0"
      "world_with_body ''{\"SomeField\":\"x\"}''" res0]
    AsJSON_early_errors_keep_target [of None "Err ''unexpected EOF''"
      json_Unmarshal_MyType PointerToTarget err_returns "Some res0" world_with_broken_body res0]
  by (simp add: world_with_body_def world_with_broken_body_def call_def err_returns_def
      ioutil_ReadAll_def emit_def res0_def)

subsection \<open>A nil response with a nil error\<close>

text \<open>
  Claim C10. Called with a nil response and a nil error, the callbacks \<open>AsText g\<close> and
  \<open>AsJSON v h\<close> panic with a nil dereference, on the state as it is: the inner callback
  is not called and no error is reported. When a nil error comes with a response, and
  the inner callback never panics, they return.
\<close>

theorem decoders_need_a_response:
  "AsText g None None w = (Panic NilDereference, w) \<and>
   AsJSON um v h None None w = (Panic NilDereference, w) \<and>
   ((err = None \<longrightarrow> res \<noteq> None) \<and> (\<forall>s e w'. fst (g s e w') = Ret ()) \<longrightarrow>
      fst (AsText g res err w) = Ret ()) \<and>
   ((err = None \<longrightarrow> res \<noteq> None) \<and> (\<forall>e w'. fst (h e w') = Ret ()) \<longrightarrow>
      fst (AsJSON um v h res err w) = Ret ())"
  by (auto simp: AsText_unfold AsJSON_unfold Let_def fst_call)

theorem decoders_need_a_response_witness:
  "AsText text_returns None None (world_with_body ''x'') = (Panic NilDereference, world_with_body ''x'') \<and>
   AsJSON json_Unmarshal_MyType PointerToTarget err_returns None None (world_with_body ''x'') =
     (Panic NilDereference, world_with_body ''x'') \<and>
   fst (AsText text_returns (Some res0) None (world_with_body ''x'')) = Ret () \<and>
   fst (AsJSON json_Unmarshal_MyType PointerToTarget err_returns (Some res0) None
          (world_with_body ''x'')) = Ret ()"
  using decoders_need_a_response [of text_returns "world_with_body ''x''" json_Unmarshal_MyType
      PointerToTarget err_returns None "Some res0"]
  by (simp add: text_returns_def err_returns_def)

text \<open>
  The goroutine of \<open>Request\<close> never calls its callback with a nil response and a nil
  error: if \<^verbatim>\<open>Do\<close> returns both, it panics on \<^verbatim>\<open>res.Body\<close> before the call.
\<close>

lemma Request_body_never_passes_nil_nil:
  assumes "(None, None) \<notin> set (callback_calls (trace w))"
  shows "(None, None) \<notin> set (callback_calls (trace (snd (Request_body client request f w))))"
  using assms
  by (auto simp: Request_body_def call_def callback_calls_simps Body_Close_def emit_def
      split: prod.splits outcome.splits option.splits if_splits sum.splits)

subsection \<open>Who closes the body\<close>

lemma go_func_frame:
  "closes (trace (snd (go_func GlobalPanicHandler body w))) = closes (trace (snd (body w)))"
  "bodies (snd (go_func GlobalPanicHandler body w)) = bodies (snd (body w))"
  by (simp_all add: go_func_GlobalPanicHandler closes_simps split: prod.splits outcome.splits)

text \<open>
  Claim C6, as amended. In the goroutine of \<open>Request\<close>: when \<^verbatim>\<open>Do\<close> returns a
  response \<open>r\<close> and a nil error, the goroutine closes the body of \<open>r\<close> exactly once,
  whether the callback returns or panics and whatever it did with the body, and the body
  is closed when the goroutine ends; when \<^verbatim>\<open>Do\<close> returns an error, the goroutine
  closes nothing. The callbacks \<open>AsText g\<close> and \<open>AsJSON v h\<close> never close a body.
\<close>

theorem body_closed_by_dispatcher:
  "(client request (w\<lparr>trace := []\<rparr>) = (Ret (Some r, None), w1) \<longrightarrow>
      closes (trace (snd (go_func GlobalPanicHandler (Request_body client request f) w))) =
        closes (trace w) @ [Body r] \<and>
      closed (bodies (snd (go_func GlobalPanicHandler (Request_body client request f) w)) (Body r))) \<and>
   (client request (w\<lparr>trace := []\<rparr>) = (Ret (res, Some e), w1) \<longrightarrow>
      closes (trace (snd (go_func GlobalPanicHandler (Request_body client request f) w))) =
        closes (trace w)) \<and>
   closes (trace (snd (AsText g res' err' w'))) = closes (trace w') \<and>
   closes (trace (snd (AsJSON um v h res' err' w'))) = closes (trace w')"
proof -
  have ok: "closes (trace (snd (go_func GlobalPanicHandler (Request_body client request f) w))) =
        closes (trace w) @ [Body r] \<and>
      closed (bodies (snd (go_func GlobalPanicHandler (Request_body client request f) w)) (Body r))"
    if "client request (w\<lparr>trace := []\<rparr>) = (Ret (Some r, None), w1)"
    using Request_body_returned [of client request w "Some r" None w1 f] that
    by (simp add: go_func_frame Body_Close_def emit_def closes_simps split: prod.splits)
  have failed: "closes (trace (snd (go_func GlobalPanicHandler (Request_body client request f) w))) =
        closes (trace w)"
    if "client request (w\<lparr>trace := []\<rparr>) = (Ret (res, Some e), w1)"
    using Request_body_returned [of client request w res "Some e" w1 f] that
    by (simp add: go_func_frame closes_simps split: prod.splits)
  have tx: "closes (trace (snd (AsText g res' err' w'))) = closes (trace w')"
    by (simp add: AsText_unfold Let_def trace_call ReadAll_frame closes_simps split: option.splits)
  have js: "closes (trace (snd (AsJSON um v h res' err' w'))) = closes (trace w')"
    by (simp add: AsJSON_unfold Let_def trace_call ReadAll_frame emit_def closes_simps
        split: option.splits)
  from ok failed tx js show ?thesis by blast
qed

theorem body_closed_by_dispatcher_witness:
  "trace (snd (go_func GlobalPanicHandler
      (Request_body client_ok (Some req0) (AsText text_returns)) (world_with_body ''hi''))) =
     [EvDo (Some req0) [],
      EvCallback (Some res0) None [EvReadAll 0, EvText ''hi'' None []],
      EvClose 0] \<and>
   closes (trace (snd (go_func GlobalPanicHandler
      (Request_body client_ok (Some req0) f_panics) (world_with_body ''hi'')))) = [0] \<and>
   closes (trace (snd (go_func GlobalPanicHandler
      (Request_body client_refused (Some req0) f_returns) (world_with_body ''hi'')))) = []"
  using body_closed_by_dispatcher [of client_ok "Some req0" "world_with_body ''hi''" res0
      "world_with_body ''hi''" "AsText text_returns" None "Err []" text_returns None None
      "world_with_body ''hi''" json_Unmarshal_MyType PointerToTarget err_returns]
    body_closed_by_dispatcher [of client_ok "Some req0" "world_with_body ''hi''" res0
      "world_with_body ''hi''" f_panics None "Err []" text_returns None None
      "world_with_body ''hi''" json_Unmarshal_MyType PointerToTarget err_returns]
    body_closed_by_dispatcher [of client_refused "Some req0" "world_with_body ''hi''" res0
      "world_with_body ''hi''" f_returns None "Err ''dial tcp: connection refused''" text_returns
      None None "world_with_body ''hi''" json_Unmarshal_MyType PointerToTarget err_returns]
  by (simp add: go_func_GlobalPanicHandler Request_body_def call_def client_ok_def
      client_refused_def f_panics_def f_returns_def AsText_def ioutil_ReadAll_def emit_def
      Body_Close_def text_returns_def world_with_body_def res0_def closes_simps)

text \<open>
  Claim C6 as stated fails where the callback is \<open>AsText g\<close>: it reads the body and
  returns with the body still open; the one \<^verbatim>\<open>Close\<close> is that of the goroutine of
  \<open>Request\<close>, after the callback.
\<close>

theorem body_closed_by_dispatcher_counterexample:
  "reads (trace (snd (AsText text_returns (Some res0) None (world_with_body ''hi'')))) = [0] \<and>
   closes (trace (snd (AsText text_returns (Some res0) None (world_with_body ''hi'')))) = [] \<and>
   \<not> closed (bodies (snd (AsText text_returns (Some res0) None (world_with_body ''hi''))) 0) \<and>
   trace (snd (Request_body client_ok (Some req0) (AsText text_returns) (world_with_body ''hi''))) =
     [EvDo (Some req0) [],
      EvCallback (Some res0) None [EvReadAll 0, EvText ''hi'' None []],
      EvClose 0]"
  by (simp add: Request_body_def call_def client_ok_def AsText_def ioutil_ReadAll_def emit_def
      Body_Close_def text_returns_def world_with_body_def res0_def closes_simps reads_simps)

end
